theory Spec2Isabelle
  imports Main
begin

section \<open>Raw changes\<close>

text \<open>
  The values a diff carries on its two sides. A reference to a lookup record (a type, a
  gender, an area) is \<open>JRef id name\<close>: the numeric id together with the display name the
  reference resolver finds for it, \<open>None\<close> when it finds none.
\<close>

datatype jsvalue =
    JBool bool
  | JNum int
  | JStr string
  | JRef nat "string option"
  | JObj "(string \<times> jsvalue) list"
  | JArr "jsvalue list"

datatype change_kind = Added | Removed | Modified

text \<open>
  A raw change as the handlers of \<open>revision.js\<close> read it: \<open>change.path\<close> is an array of
  property names, \<open>change.lhs\<close> and \<open>change.rhs\<close> are the old and the new value, either of
  which may be absent.
\<close>

record change =
  path :: "string list"
  kind :: change_kind
  lhs :: "jsvalue option"
  rhs :: "jsvalue option"

datatype formatted_change =
    FieldChange string change_kind "jsvalue option" "jsvalue option"
  | SetChange string "jsvalue list" "jsvalue list"

fun label :: "formatted_change \<Rightarrow> string" where
  "label (FieldChange l k old new) = l"
| "label (SetChange l adds rems) = l"

text \<open>
  What a classifier of \<open>revision.js\<close> returns: the formatter's result, the JavaScript
  value \<open>null\<close>, or the empty array \<open>[]\<close>.
\<close>

datatype classified = Null | EmptyArray | Formatted formatted_change

section \<open>The base formatters (helpers/diffFormatters/base)\<close>

text \<open>
  Modelled from the spec: \<open>formatScalarChange\<close> of \<open>helpers/diffFormatters/base\<close>, which is
  not among the source files. It renders old and new as plain scalars, passing both
  through, under the label it is given.
\<close>

definition formatScalarChange :: "change \<Rightarrow> string \<Rightarrow> formatted_change" where
  "formatScalarChange c lbl = FieldChange lbl (kind c) (lhs c) (rhs c)"

text \<open>
  Modelled from the spec: \<open>formatEndedChange\<close> of \<open>helpers/diffFormatters/base\<close>. The
  boolean flag is rendered as Yes or No; any other value is passed through. The spec
  names no label for it: the field's name stands in.
\<close>

fun yesNo :: "jsvalue \<Rightarrow> jsvalue" where
  "yesNo (JBool b) = JStr (if b then ''Yes'' else ''No'')"
| "yesNo v = v"

definition formatEndedChange :: "change \<Rightarrow> formatted_change" where
  "formatEndedChange c =
     FieldChange ''Ended'' (kind c) (map_option yesNo (lhs c)) (map_option yesNo (rhs c))"

text \<open>
  Modelled from the spec: \<open>formatTypeChange\<close> and \<open>formatGenderChange\<close> of
  \<open>helpers/diffFormatters/base\<close>. Old and new are references to a lookup record; the
  display name is rendered, never the id, and the placeholder Unknown where the
  reference has no resolvable name. The gender formatter is the type formatter for the
  gender field; the spec names no label for it, the field's name stands in.
\<close>

fun displayName :: "jsvalue \<Rightarrow> jsvalue" where
  "displayName (JRef i (Some n)) = JStr n"
| "displayName v = JStr ''Unknown''"

definition formatTypeChange :: "change \<Rightarrow> string \<Rightarrow> formatted_change" where
  "formatTypeChange c lbl =
     FieldChange lbl (kind c) (map_option displayName (lhs c)) (map_option displayName (rhs c))"

definition formatGenderChange :: "change \<Rightarrow> formatted_change" where
  "formatGenderChange c = formatTypeChange c ''Gender''"

text \<open>
  Modelled from the spec: \<open>formatAreaChange(change, label = 'Area')\<close> of
  \<open>helpers/diffFormatters/base\<close>. An area arrives as a bare reference, as an object
  \<open>{name: ...}\<close>, or (under the \<open>.name\<close> sub-path) as the name itself; the display name is
  rendered in each case, the placeholder where there is none. The label is an optional
  argument: a call that passes none gets the default \<open>Area\<close>.
\<close>

fun areaName :: "jsvalue \<Rightarrow> jsvalue" where
  "areaName (JStr n) = JStr n"
| "areaName (JObj props) =
     (case map_of props ''name'' of Some (JStr n) \<Rightarrow> JStr n | _ \<Rightarrow> JStr ''Unknown'')"
| "areaName v = displayName v"

definition formatAreaChange :: "change \<Rightarrow> string option \<Rightarrow> formatted_change" where
  "formatAreaChange c lbl =
     FieldChange (case lbl of None \<Rightarrow> ''Area'' | Some l \<Rightarrow> l) (kind c)
       (map_option areaName (lhs c)) (map_option areaName (rhs c))"

section \<open>The set formatters (languageSet, publisherSet, releaseEventSet)\<close>

text \<open>
  Modelled from the spec: the modules \<open>helpers/diffFormatters/languageSet\<close>,
  \<open>publisherSet\<close> and \<open>releaseEventSet\<close>, one contract for the three. \<open>changed\<close> holds
  when the root of the path is the set field's name. \<open>format\<close> lists the members only
  the new side has and the members only the old side has, each in the order of its side;
  an absent side counts as empty. The spec names no label for a set field: the field's
  name stands in.
\<close>

definition setChanged :: "string \<Rightarrow> change \<Rightarrow> bool" where
  "setChanged field c = (case path c of [] \<Rightarrow> False | root # rest \<Rightarrow> root = field)"

fun members :: "jsvalue option \<Rightarrow> jsvalue list" where
  "members (Some (JArr ms)) = ms"
| "members v = []"

definition setFormat :: "string \<Rightarrow> change \<Rightarrow> formatted_change" where
  "setFormat field c =
     SetChange field
       (filter (\<lambda>m. m \<notin> set (members (lhs c))) (members (rhs c)))
       (filter (\<lambda>m. m \<notin> set (members (rhs c))) (members (lhs c)))"

definition languageSet_changed :: "change \<Rightarrow> bool" where
  "languageSet_changed = setChanged ''languageSet''"

definition languageSet_format :: "change \<Rightarrow> formatted_change" where
  "languageSet_format = setFormat ''languageSet''"

definition publisherSet_changed :: "change \<Rightarrow> bool" where
  "publisherSet_changed = setChanged ''publisherSet''"

definition publisherSet_format :: "change \<Rightarrow> formatted_change" where
  "publisherSet_format = setFormat ''publisherSet''"

definition releaseEventSet_changed :: "change \<Rightarrow> bool" where
  "releaseEventSet_changed = setChanged ''releaseEventSet''"

definition releaseEventSet_format :: "change \<Rightarrow> formatted_change" where
  "releaseEventSet_format = setFormat ''releaseEventSet''"

section \<open>lodash's startCase\<close>

text \<open>
  \<open>_.startCase\<close> on ASCII text without case or digit boundaries: the words are the
  maximal runs of letters and digits, each gets its first letter in upper case, and they
  are joined by single spaces. (lodash splits camel case and letter/digit boundaries as
  well; the one call of \<open>revision.js\<close> passes \<open>width\<close>, \<open>height\<close>, \<open>depth\<close> or \<open>weight\<close>.)
\<close>

definition lowerLetters :: string where
  "lowerLetters = ''abcdefghijklmnopqrstuvwxyz''"

definition upperLetters :: string where
  "upperLetters = ''ABCDEFGHIJKLMNOPQRSTUVWXYZ''"

definition isWordChar :: "char \<Rightarrow> bool" where
  "isWordChar ch = (ch \<in> set (lowerLetters @ upperLetters @ ''0123456789''))"

definition toUpperChar :: "char \<Rightarrow> char" where
  "toUpperChar ch = (case map_of (zip lowerLetters upperLetters) ch of Some u \<Rightarrow> u | None \<Rightarrow> ch)"

fun upperFirst :: "string \<Rightarrow> string" where
  "upperFirst [] = []"
| "upperFirst (ch # rest) = toUpperChar ch # rest"

fun asciiWords :: "string \<Rightarrow> string \<Rightarrow> string list" where
  "asciiWords cur [] = (if cur = [] then [] else [cur])"
| "asciiWords cur (ch # rest) =
     (if isWordChar ch then asciiWords (cur @ [ch]) rest
      else (if cur = [] then [] else [cur]) @ asciiWords [] rest)"

fun joinWords :: "string list \<Rightarrow> string" where
  "joinWords [] = []"
| "joinWords [w] = w"
| "joinWords (w # ws) = w @ '' '' @ joinWords ws"

definition startCase :: "string \<Rightarrow> string" where
  "startCase s = joinWords (map upperFirst (asciiWords [] s))"

section \<open>The classifiers of revision.js\<close>

definition formatAuthorChange :: "change \<Rightarrow> classified" where
  "formatAuthorChange c =
    (if path c = [''beginDate''] then Formatted (formatScalarChange c ''Begin Date'')
     else if path c = [''endDate''] then Formatted (formatScalarChange c ''End Date'')
     else if path c = [''gender''] then Formatted (formatGenderChange c)
     else if path c = [''ended''] then Formatted (formatEndedChange c)
     else if path c = [''type''] then Formatted (formatTypeChange c ''Author Type'')
     else if path c = [''beginArea''] \<or> path c = [''beginArea'', ''name'']
       then Formatted (formatAreaChange c (Some ''Begin Area''))
     else if path c = [''endArea''] \<or> path c = [''endArea'', ''name'']
       then Formatted (formatAreaChange c (Some ''End Area''))
     else Null)"

text \<open>\<open>change.path[0]\<close> below is read only where the guard has fixed the path to one segment.\<close>

definition formatEditionChange :: "change \<Rightarrow> classified" where
  "formatEditionChange c =
    (if path c = [''editionGroupBbid''] then Formatted (formatScalarChange c ''EditionGroup'')
     else if publisherSet_changed c then Formatted (publisherSet_format c)
     else if releaseEventSet_changed c then Formatted (releaseEventSet_format c)
     else if languageSet_changed c then Formatted (languageSet_format c)
     else if path c = [''width''] \<or> path c = [''height''] \<or>
             path c = [''depth''] \<or> path c = [''weight'']
       then Formatted (formatScalarChange c (startCase (hd (path c))))
     else if path c = [''pages''] then Formatted (formatScalarChange c ''Page Count'')
     else if path c = [''editionFormat''] then Formatted (formatTypeChange c ''Edition Format'')
     else if path c = [''editionStatus''] then Formatted (formatTypeChange c ''Edition Status'')
     else Null)"

definition formatPublisherChange :: "change \<Rightarrow> classified" where
  "formatPublisherChange c =
    (if path c = [''beginDate''] then Formatted (formatScalarChange c ''Begin Date'')
     else if path c = [''endDate''] then Formatted (formatScalarChange c ''End Date'')
     else if path c = [''ended''] then Formatted (formatEndedChange c)
     else if path c = [''type''] then Formatted (formatTypeChange c ''Publisher Type'')
     else if path c = [''area''] \<or> path c = [''area'', ''name'']
       then Formatted (formatAreaChange c None)
     else Null)"

definition formatWorkChange :: "change \<Rightarrow> classified" where
  "formatWorkChange c =
    (if languageSet_changed c then Formatted (languageSet_format c)
     else if path c = [''type''] then Formatted (formatTypeChange c ''Work Type'')
     else Null)"

definition formatEditionGroupChange :: "change \<Rightarrow> classified" where
  "formatEditionGroupChange c =
    (if path c = [''type''] then Formatted (formatTypeChange c ''Edition Group Type'')
     else EmptyArray)"

section \<open>Promises\<close>

datatype error = NotFoundError | OrmError string

text \<open>
  A promise as the route sees it once it has settled: fulfilled with a value or rejected
  with a reason, together with the time at which it settled. The times order the
  completions of promises that run side by side.
\<close>

datatype 'a promise = Fulfilled nat 'a | Rejected nat error

text \<open>
  \<open>p.then(f)\<close>: a rejection passes through; a value is handed to \<open>f\<close>, and the promise
  \<open>f\<close> returns settles the chain, never before \<open>p\<close> itself has settled.
\<close>

fun notBefore :: "nat \<Rightarrow> 'a promise \<Rightarrow> 'a promise" where
  "notBefore t (Fulfilled u v) = Fulfilled (max t u) v"
| "notBefore t (Rejected u e) = Rejected (max t u) e"

fun then_promise :: "'a promise \<Rightarrow> ('a \<Rightarrow> 'b promise) \<Rightarrow> 'b promise" where
  "then_promise (Fulfilled t v) f = notBefore t (f v)"
| "then_promise (Rejected t e) f = Rejected t e"

text \<open>
  Two promises awaited together, the building block of bluebird's \<open>Promise.all\<close> and
  \<open>Promise.join\<close>: the result is fulfilled with both values once both are fulfilled, and
  rejected with the reason of the promise that rejects first. In a run of the program no
  two promises settle at the same instant; where two times are equal the model takes the
  promise listed first.
\<close>

fun join2 :: "'a promise \<Rightarrow> 'b promise \<Rightarrow> ('a \<times> 'b) promise" where
  "join2 (Fulfilled t a) (Fulfilled u b) = Fulfilled (max t u) (a, b)"
| "join2 (Fulfilled t a) (Rejected u e) = Rejected u e"
| "join2 (Rejected t e) (Fulfilled u b) = Rejected t e"
| "join2 (Rejected t e) (Rejected u e') = (if u < t then Rejected u e' else Rejected t e)"

fun Promise_all :: "'a promise list \<Rightarrow> 'a list promise" where
  "Promise_all [] = Fulfilled 0 []"
| "Promise_all (p # ps) =
     (case join2 p (Promise_all ps) of
        Fulfilled t (v, vs) \<Rightarrow> Fulfilled t (v # vs)
      | Rejected t e \<Rightarrow> Rejected t e)"

section \<open>Entity revisions and their diffs\<close>

datatype revision = Revision nat

datatype entity = Entity string

text \<open>
  A row of an entity kind's revision table, as far as \<open>diffRevisionsWithParents\<close> uses it:
  \<open>revision.parent()\<close>, \<open>revision.diff(parent)\<close> and \<open>revision.related('entity')\<close>.
\<close>

record revision_row =
  parent :: "revision option promise"
  diff :: "revision option \<Rightarrow> change list promise"
  related_entity :: entity

record raw_diff =
  changes :: "change list"
  entity :: entity

text \<open>\<open>Promise.props({changes: revision.diff(parent), entity: revision.related('entity')})\<close>\<close>

fun Promise_props :: "change list promise \<Rightarrow> entity \<Rightarrow> raw_diff promise" where
  "Promise_props (Fulfilled t cs) en = Fulfilled t \<lparr>changes = cs, entity = en\<rparr>"
| "Promise_props (Rejected t e) en = Rejected t e"

definition diffRevisionsWithParents :: "revision_row list \<Rightarrow> raw_diff list promise" where
  "diffRevisionsWithParents revisions =
     Promise_all (map (\<lambda>r. then_promise (parent r)
                          (\<lambda>p. Promise_props (diff r p) (related_entity r))) revisions)"

section \<open>The aggregator (helpers/diffFormatters/entity)\<close>

record entity_diff_block =
  entityType :: string
  entityMeta :: entity
  formattedChanges :: "formatted_change list"

text \<open>
  Modelled from the spec: \<open>formatEntityDiffs\<close> of \<open>helpers/diffFormatters/entity\<close>, which is
  not among the source files. For each diff of the kind it applies the kind's classifier
  to every raw change, keeps the formatted results in the order of the changes, drops
  the null and the empty ones, and attaches the entity. No changes give a block with no
  formatted changes.
\<close>

fun kept :: "classified \<Rightarrow> formatted_change list" where
  "kept Null = []"
| "kept EmptyArray = []"
| "kept (Formatted f) = [f]"

fun isFormatted :: "classified \<Rightarrow> bool" where
  "isFormatted Null = False"
| "isFormatted EmptyArray = False"
| "isFormatted (Formatted f) = True"

definition formatEntityDiffs ::
  "raw_diff list \<Rightarrow> string \<Rightarrow> (change \<Rightarrow> classified) \<Rightarrow> entity_diff_block list" where
  "formatEntityDiffs diffs ty classify =
     map (\<lambda>d. \<lparr>entityType = ty, entityMeta = entity d,
               formattedChanges = concat (map (\<lambda>c. kept (classify c)) (changes d))\<rparr>) diffs"

section \<open>The route GET /:id\<close>

text \<open>
  What the object-relational layer answers for a revision id: the fetch of the base
  revision (fulfilled with \<open>None\<close> where there is no such record) and, per entity kind,
  the rows of that id.
\<close>

record orm =
  Revision_fetch :: "nat \<Rightarrow> revision option promise"
  AuthorRevision :: "nat \<Rightarrow> revision_row list promise"
  EditionRevision :: "nat \<Rightarrow> revision_row list promise"
  EditionGroupRevision :: "nat \<Rightarrow> revision_row list promise"
  PublisherRevision :: "nat \<Rightarrow> revision_row list promise"
  WorkRevision :: "nat \<Rightarrow> revision_row list promise"

text \<open>\<open>_createRevision(model)\<close>: the rows of the id, then their diffs with their parents.\<close>

definition createRevision :: "revision_row list promise \<Rightarrow> raw_diff list promise" where
  "createRevision fetched = then_promise fetched diffRevisionsWithParents"

record page =
  diffs :: "entity_diff_block list"
  page_revision :: revision
  title :: string

text \<open>
  The handler of \<open>router.get('/:id')\<close>. \<open>Promise.join\<close> awaits the six promises in the
  order revision, author, edition, work, publisher, edition group, and hands their values
  to the callback; the callback throws \<open>NotFoundError\<close> when the revision is null and
  otherwise sends the page. \<open>.catch(next)\<close> hands any rejection or throw to \<open>next\<close>: the
  result \<open>Inl\<close>. The rendering of the page to markup is left out.
\<close>

definition getRevisionDiff :: "orm \<Rightarrow> nat \<Rightarrow> error + page" where
  "getRevisionDiff db rid =
    (let revisionPromise = Revision_fetch db rid;
         authorDiffsPromise = createRevision (AuthorRevision db rid);
         editionDiffsPromise = createRevision (EditionRevision db rid);
         editionGroupDiffsPromise = createRevision (EditionGroupRevision db rid);
         publisherDiffsPromise = createRevision (PublisherRevision db rid);
         workDiffsPromise = createRevision (WorkRevision db rid)
     in case join2 revisionPromise (join2 authorDiffsPromise (join2 editionDiffsPromise
               (join2 workDiffsPromise (join2 publisherDiffsPromise editionGroupDiffsPromise)))) of
          Rejected t e \<Rightarrow> Inl e
        | Fulfilled t (revisionRec, authorDiffs, editionDiffs, workDiffs, publisherDiffs,
                       editionGroupDiffs) \<Rightarrow>
            (case revisionRec of
               None \<Rightarrow> Inl NotFoundError
             | Some r \<Rightarrow>
                 Inr \<lparr>diffs =
                        formatEntityDiffs authorDiffs ''Author'' formatAuthorChange @
                        formatEntityDiffs editionDiffs ''Edition'' formatEditionChange @
                        formatEntityDiffs editionGroupDiffs ''EditionGroup''
                          formatEditionGroupChange @
                        formatEntityDiffs publisherDiffs ''Publisher'' formatPublisherChange @
                        formatEntityDiffs workDiffs ''Work'' formatWorkChange,
                      page_revision = r, title = ''RevisionPage''\<rparr>))"

text \<open>The five per-kind promises of a request, in the order \<open>Promise.join\<close> lists them.\<close>

definition branchPromises :: "orm \<Rightarrow> nat \<Rightarrow> raw_diff list promise list" where
  "branchPromises db rid =
     [createRevision (AuthorRevision db rid), createRevision (EditionRevision db rid),
      createRevision (WorkRevision db rid), createRevision (PublisherRevision db rid),
      createRevision (EditionGroupRevision db rid)]"

fun rejectionReason :: "'a promise \<Rightarrow> error list" where
  "rejectionReason (Fulfilled t v) = []"
| "rejectionReason (Rejected t e) = [e]"

text \<open>The reasons of the rejected ones among the six joined promises.\<close>

definition rejectionReasons :: "orm \<Rightarrow> nat \<Rightarrow> error list" where
  "rejectionReasons db rid =
     rejectionReason (Revision_fetch db rid) @ concat (map rejectionReason (branchPromises db rid))"

section \<open>The recognized fields of each kind\<close>

text \<open>
  The table of recognized fields: a field matched by its exact path, a compound field
  matched by its path or by its \<open>name\<close> sub-path, and a set field matched by the root of
  the path.
\<close>

datatype field_shape = Exact string | WithName string | Root string

fun matchesField :: "string list \<Rightarrow> field_shape \<Rightarrow> bool" where
  "matchesField p (Exact f) = (p = [f])"
| "matchesField p (WithName f) = (p = [f] \<or> p = [f, ''name''])"
| "matchesField p (Root f) = (case p of [] \<Rightarrow> False | r # rest \<Rightarrow> r = f)"

definition unrecognized :: "field_shape list \<Rightarrow> string list \<Rightarrow> bool" where
  "unrecognized table p = (\<not> list_ex (matchesField p) table)"

definition authorFields :: "field_shape list" where
  "authorFields = [Exact ''beginDate'', Exact ''endDate'', Exact ''gender'', Exact ''ended'',
                   Exact ''type'', WithName ''beginArea'', WithName ''endArea'']"

definition editionFields :: "field_shape list" where
  "editionFields = [Exact ''editionGroupBbid'', Root ''publisherSet'', Root ''releaseEventSet'',
                    Root ''languageSet'', Exact ''width'', Exact ''height'', Exact ''depth'',
                    Exact ''weight'', Exact ''pages'', Exact ''editionFormat'',
                    Exact ''editionStatus'']"

definition editionGroupFields :: "field_shape list" where
  "editionGroupFields = [Exact ''type'']"

definition publisherFields :: "field_shape list" where
  "publisherFields = [Exact ''beginDate'', Exact ''endDate'', Exact ''ended'', Exact ''type'',
                      WithName ''area'']"

definition workFields :: "field_shape list" where
  "workFields = [Root ''languageSet'', Exact ''type'']"

section \<open>Example databases\<close>

text \<open>
  Revision 42 exists and touches one author, whose diff with its parent is the single
  change of the end date; no other revision exists.
\<close>

definition endDateChange :: change where
  "endDateChange = \<lparr>path = [''endDate''], kind = Modified,
                     lhs = Some (JStr ''2001-01-01''), rhs = Some (JStr ''2002-02-02'')\<rparr>"

definition authorRow :: revision_row where
  "authorRow = \<lparr>parent = Fulfilled 3 (Some (Revision 41)),
                 diff = (\<lambda>p. Fulfilled 4 [endDateChange]),
                 related_entity = Entity ''author-1''\<rparr>"

definition exampleDb :: orm where
  "exampleDb =
     \<lparr>Revision_fetch = (\<lambda>i. Fulfilled 6 (if i = 42 then Some (Revision 42) else None)),
      AuthorRevision = (\<lambda>i. Fulfilled 2 (if i = 42 then [authorRow] else [])),
      EditionRevision = (\<lambda>i. Fulfilled 5 []),
      EditionGroupRevision = (\<lambda>i. Fulfilled 1 []),
      PublisherRevision = (\<lambda>i. Fulfilled 2 []),
      WorkRevision = (\<lambda>i. Fulfilled 1 [])\<rparr>"

text \<open>The same database while the query of the edition revisions fails.\<close>

definition failingDb :: orm where
  "failingDb = exampleDb\<lparr>EditionRevision := (\<lambda>i. Rejected 5 (OrmError ''connection lost''))\<rparr>"

text \<open>The same database with a second author row whose diff with its parent fails.\<close>

definition brokenRow :: revision_row where
  "brokenRow = authorRow\<lparr>diff := (\<lambda>p. Rejected 4 (OrmError ''diff failed''))\<rparr>"

definition brokenDiffDb :: orm where
  "brokenDiffDb =
     exampleDb\<lparr>AuthorRevision := (\<lambda>i. Fulfilled 2 (if i = 42 then [authorRow, brokenRow] else []))\<rparr>"

text \<open>
  Revision 42 also touches a publisher, whose diff with its parent is empty, and a work,
  whose type was set; the work's rows arrive first, the author's last.
\<close>

definition publisherRow :: revision_row where
  "publisherRow = \<lparr>parent = Fulfilled 3 (Some (Revision 40)),
                    diff = (\<lambda>p. Fulfilled 5 []),
                    related_entity = Entity ''publisher-1''\<rparr>"

definition workRow :: revision_row where
  "workRow = \<lparr>parent = Fulfilled 2 None,
               diff = (\<lambda>p. Fulfilled 2
                  [\<lparr>path = [''type''], kind = Added, lhs = None,
                    rhs = Some (JRef 3 (Some ''Novel''))\<rparr>]),
               related_entity = Entity ''work-1''\<rparr>"

definition mixedDb :: orm where
  "mixedDb =
     exampleDb\<lparr>AuthorRevision := (\<lambda>i. Fulfilled 9 (if i = 42 then [authorRow] else [])),
               PublisherRevision := (\<lambda>i. Fulfilled 4 (if i = 42 then [publisherRow] else [])),
               WorkRevision := (\<lambda>i. Fulfilled 1 (if i = 42 then [workRow] else []))\<rparr>"

text \<open>A change of a field no kind displays, and a change below the begin date.\<close>

definition annotationChange :: change where
  "annotationChange = \<lparr>path = [''annotation''], kind = Modified,
                        lhs = Some (JStr ''a''), rhs = Some (JStr ''b'')\<rparr>"

definition beginYearChange :: change where
  "beginYearChange = \<lparr>path = [''beginDate'', ''year''], kind = Modified,
                       lhs = Some (JNum 1990), rhs = Some (JNum 1991)\<rparr>"

text \<open>An area as the object \<open>{name: n}\<close>.\<close>

definition areaObject :: "string \<Rightarrow> jsvalue" where
  "areaObject n = JObj [(''name'', JStr n)]"

section \<open>Facts about joined promises\<close>

text \<open>The promise \<open>Promise.join\<close> awaits in \<open>getRevisionDiff\<close>.\<close>

definition joinedPromise ::
  "orm \<Rightarrow> nat \<Rightarrow>
   (revision option \<times> raw_diff list \<times> raw_diff list \<times> raw_diff list \<times> raw_diff list \<times>
    raw_diff list) promise" where
  "joinedPromise db rid =
     join2 (Revision_fetch db rid) (join2 (createRevision (AuthorRevision db rid))
       (join2 (createRevision (EditionRevision db rid))
         (join2 (createRevision (WorkRevision db rid))
           (join2 (createRevision (PublisherRevision db rid))
             (createRevision (EditionGroupRevision db rid))))))"

lemma getRevisionDiff_joined:
  "getRevisionDiff db rid =
    (case joinedPromise db rid of
       Rejected t e \<Rightarrow> Inl e
     | Fulfilled t (revisionRec, authorDiffs, editionDiffs, workDiffs, publisherDiffs,
                    editionGroupDiffs) \<Rightarrow>
         (case revisionRec of
            None \<Rightarrow> Inl NotFoundError
          | Some r \<Rightarrow>
              Inr \<lparr>diffs =
                     formatEntityDiffs authorDiffs ''Author'' formatAuthorChange @
                     formatEntityDiffs editionDiffs ''Edition'' formatEditionChange @
                     formatEntityDiffs editionGroupDiffs ''EditionGroup''
                       formatEditionGroupChange @
                     formatEntityDiffs publisherDiffs ''Publisher'' formatPublisherChange @
                     formatEntityDiffs workDiffs ''Work'' formatWorkChange,
                   page_revision = r, title = ''RevisionPage''\<rparr>))"
  by (simp add: getRevisionDiff_def joinedPromise_def Let_def)


lemma rejectionReason_join2_empty:
  "rejectionReason (join2 p q) = [] \<longleftrightarrow> rejectionReason p = [] \<and> rejectionReason q = []"
  by (cases p; cases q) simp_all

lemma rejectionReason_join2_subset:
  "set (rejectionReason (join2 p q)) \<subseteq> set (rejectionReason p) \<union> set (rejectionReason q)"
  by (cases p; cases q) simp_all

lemma joined_no_rejection:
  "rejectionReason (joinedPromise db rid) = [] \<longleftrightarrow> rejectionReasons db rid = []"
  by (simp add: joinedPromise_def rejectionReasons_def branchPromises_def
      rejectionReason_join2_empty)

lemma joined_rejection_subset:
  "set (rejectionReason (joinedPromise db rid)) \<subseteq> set (rejectionReasons db rid)"
  unfolding joinedPromise_def rejectionReasons_def branchPromises_def
  by (auto dest!: subsetD[OF rejectionReason_join2_subset])

text \<open>
  When one of the six promises is rejected the callback never runs: \<open>next\<close> gets the reason
  of a rejected promise.
\<close>

lemma getRevisionDiff_rejected:
  assumes "rejectionReasons db rid \<noteq> []"
  shows "\<exists>e. getRevisionDiff db rid = Inl e \<and> e \<in> set (rejectionReasons db rid)"
proof -
  from assms have "rejectionReason (joinedPromise db rid) \<noteq> []"
    by (simp add: joined_no_rejection)
  then obtain t e where J: "joinedPromise db rid = Rejected t e"
    by (cases "joinedPromise db rid") auto
  with joined_rejection_subset[of db rid] have "e \<in> set (rejectionReasons db rid)"
    by auto
  moreover from J have "getRevisionDiff db rid = Inl e"
    by (simp add: getRevisionDiff_joined)
  ultimately show ?thesis by blast
qed

lemma join2_Fulfilled_fst:
  "join2 p q = Fulfilled t (a, b) \<Longrightarrow> \<exists>u. p = Fulfilled u a"
  by (cases p; cases q) (auto split: if_splits)

lemma getRevisionDiff_missing:
  assumes "Revision_fetch db rid = Fulfilled t None" and "rejectionReasons db rid = []"
  shows "getRevisionDiff db rid = Inl NotFoundError"
proof -
  from assms(2) have "rejectionReason (joinedPromise db rid) = []"
    by (simp add: joined_no_rejection)
  then obtain u v where J: "joinedPromise db rid = Fulfilled u v"
    by (cases "joinedPromise db rid") auto
  obtain r rest where v: "v = (r, rest)" by (cases v)
  from J v have "\<exists>u'. Revision_fetch db rid = Fulfilled u' r"
    unfolding joinedPromise_def by (auto dest: join2_Fulfilled_fst)
  with assms(1) have "r = None" by auto
  with J v show ?thesis by (simp add: getRevisionDiff_joined split: prod.splits)
qed

lemma entityType_formatEntityDiffs:
  "map entityType (formatEntityDiffs ds ty f) = replicate (length ds) ty"
  by (induction ds) (simp_all add: formatEntityDiffs_def)

lemmas classifier_defs = formatAuthorChange_def formatEditionChange_def
  formatPublisherChange_def formatWorkChange_def formatEditionGroupChange_def

lemmas set_defs = publisherSet_changed_def releaseEventSet_changed_def
  languageSet_changed_def setChanged_def

lemmas table_defs = unrecognized_def authorFields_def editionFields_def
  editionGroupFields_def publisherFields_def workFields_def

lemmas startCase_defs = startCase_def isWordChar_def lowerLetters_def upperLetters_def
  toUpperChar_def

lemmas db_defs = exampleDb_def failingDb_def brokenDiffDb_def mixedDb_def authorRow_def
  brokenRow_def publisherRow_def workRow_def createRevision_def diffRevisionsWithParents_def

section \<open>Unrecognized changes\<close>

text \<open>
  Where no test of a classifier matches, the Author, Edition, Publisher and Work
  classifiers fall through to \<open>return null\<close> and the EditionGroup classifier to
  \<open>return []\<close>.
\<close>

lemma unrecognized_fall_through:
  "(unrecognized authorFields (path c) \<longrightarrow> formatAuthorChange c = Null)
   \<and> (unrecognized editionFields (path c) \<longrightarrow> formatEditionChange c = Null)
   \<and> (unrecognized publisherFields (path c) \<longrightarrow> formatPublisherChange c = Null)
   \<and> (unrecognized workFields (path c) \<longrightarrow> formatWorkChange c = Null)
   \<and> (unrecognized editionGroupFields (path c) \<longrightarrow> formatEditionGroupChange c = EmptyArray)"
  by (auto simp add: classifier_defs set_defs table_defs split: list.splits)

text \<open>
  C1: every classifier is to answer a change whose path matches none of its kind's
  recognized fields with null. At a change of the annotation, which no kind recognizes,
  the Author, Edition, Publisher and Work classifiers do; the EditionGroup classifier
  answers with the empty array, which is not null.
\<close>

theorem editionGroup_unrecognized_not_null:
  "unrecognized editionGroupFields (path annotationChange)
   \<and> formatEditionGroupChange annotationChange = EmptyArray
   \<and> formatEditionGroupChange annotationChange \<noteq> Null
   \<and> formatAuthorChange annotationChange = Null
   \<and> formatEditionChange annotationChange = Null
   \<and> formatPublisherChange annotationChange = Null
   \<and> formatWorkChange annotationChange = Null"
  by (simp add: classifier_defs set_defs table_defs annotationChange_def)

section \<open>Paths with equal first segments\<close>

text \<open>
  C2, as the code has it: two paths with the same first segment are classified alike
  where that segment is a set field (publisher set, release event set and language set
  of an edition, language set of a work), whose formatter takes a path with any trailing
  segments, and where the paths are an area field and its \<open>name\<close> sub-path (begin area and
  end area of an author, area of a publisher), which go to the area formatter under the
  same label. Every other path of two or more segments is unrecognized by each of the
  five classifiers, whatever its first segment: no formatted change results.
\<close>

theorem equal_first_segment_classification:
  "formatAuthorChange (c\<lparr>path := [''beginArea'']\<rparr>)
     = Formatted (formatAreaChange (c\<lparr>path := [''beginArea'']\<rparr>) (Some ''Begin Area''))
   \<and> formatAuthorChange (c\<lparr>path := [''beginArea'', ''name'']\<rparr>)
     = Formatted (formatAreaChange (c\<lparr>path := [''beginArea'', ''name'']\<rparr>)
         (Some ''Begin Area''))
   \<and> formatAuthorChange (c\<lparr>path := [''endArea'']\<rparr>)
     = Formatted (formatAreaChange (c\<lparr>path := [''endArea'']\<rparr>) (Some ''End Area''))
   \<and> formatAuthorChange (c\<lparr>path := [''endArea'', ''name'']\<rparr>)
     = Formatted (formatAreaChange (c\<lparr>path := [''endArea'', ''name'']\<rparr>)
         (Some ''End Area''))
   \<and> formatPublisherChange (c\<lparr>path := [''area'']\<rparr>)
     = Formatted (formatAreaChange (c\<lparr>path := [''area'']\<rparr>) None)
   \<and> formatPublisherChange (c\<lparr>path := [''area'', ''name'']\<rparr>)
     = Formatted (formatAreaChange (c\<lparr>path := [''area'', ''name'']\<rparr>) None)
   \<and> formatEditionChange (c\<lparr>path := ''publisherSet'' # rest\<rparr>)
     = Formatted (publisherSet_format (c\<lparr>path := ''publisherSet'' # rest\<rparr>))
   \<and> formatEditionChange (c\<lparr>path := ''releaseEventSet'' # rest\<rparr>)
     = Formatted (releaseEventSet_format (c\<lparr>path := ''releaseEventSet'' # rest\<rparr>))
   \<and> formatEditionChange (c\<lparr>path := ''languageSet'' # rest\<rparr>)
     = Formatted (languageSet_format (c\<lparr>path := ''languageSet'' # rest\<rparr>))
   \<and> formatWorkChange (c\<lparr>path := ''languageSet'' # rest\<rparr>)
     = Formatted (languageSet_format (c\<lparr>path := ''languageSet'' # rest\<rparr>))
   \<and> (2 \<le> length (path c) \<and> path c \<noteq> [''beginArea'', ''name'']
        \<and> path c \<noteq> [''endArea'', ''name''] \<longrightarrow> formatAuthorChange c = Null)
   \<and> (2 \<le> length (path c) \<and> path c \<noteq> [''area'', ''name'']
        \<longrightarrow> formatPublisherChange c = Null)
   \<and> (2 \<le> length (path c)
        \<and> hd (path c) \<notin> set [''publisherSet'', ''releaseEventSet'', ''languageSet'']
        \<longrightarrow> formatEditionChange c = Null)
   \<and> (2 \<le> length (path c) \<and> hd (path c) \<noteq> ''languageSet''
        \<longrightarrow> formatWorkChange c = Null)
   \<and> (2 \<le> length (path c) \<longrightarrow> \<not> isFormatted (formatEditionGroupChange c))"
proof -
  have areas: "formatAuthorChange (c\<lparr>path := [''beginArea'']\<rparr>)
       = Formatted (formatAreaChange (c\<lparr>path := [''beginArea'']\<rparr>) (Some ''Begin Area''))"
    "formatAuthorChange (c\<lparr>path := [''beginArea'', ''name'']\<rparr>)
       = Formatted (formatAreaChange (c\<lparr>path := [''beginArea'', ''name'']\<rparr>)
           (Some ''Begin Area''))"
    "formatAuthorChange (c\<lparr>path := [''endArea'']\<rparr>)
       = Formatted (formatAreaChange (c\<lparr>path := [''endArea'']\<rparr>) (Some ''End Area''))"
    "formatAuthorChange (c\<lparr>path := [''endArea'', ''name'']\<rparr>)
       = Formatted (formatAreaChange (c\<lparr>path := [''endArea'', ''name'']\<rparr>)
           (Some ''End Area''))"
    "formatPublisherChange (c\<lparr>path := [''area'']\<rparr>)
       = Formatted (formatAreaChange (c\<lparr>path := [''area'']\<rparr>) None)"
    "formatPublisherChange (c\<lparr>path := [''area'', ''name'']\<rparr>)
       = Formatted (formatAreaChange (c\<lparr>path := [''area'', ''name'']\<rparr>) None)"
    by (simp_all add: formatAuthorChange_def formatPublisherChange_def)
  have sets: "formatEditionChange (c\<lparr>path := ''publisherSet'' # rest\<rparr>)
       = Formatted (publisherSet_format (c\<lparr>path := ''publisherSet'' # rest\<rparr>))"
    "formatEditionChange (c\<lparr>path := ''releaseEventSet'' # rest\<rparr>)
       = Formatted (releaseEventSet_format (c\<lparr>path := ''releaseEventSet'' # rest\<rparr>))"
    "formatEditionChange (c\<lparr>path := ''languageSet'' # rest\<rparr>)
       = Formatted (languageSet_format (c\<lparr>path := ''languageSet'' # rest\<rparr>))"
    "formatWorkChange (c\<lparr>path := ''languageSet'' # rest\<rparr>)
       = Formatted (languageSet_format (c\<lparr>path := ''languageSet'' # rest\<rparr>))"
    by (simp_all add: formatEditionChange_def formatWorkChange_def set_defs)
  have author: "2 \<le> length (path c) \<and> path c \<noteq> [''beginArea'', ''name'']
        \<and> path c \<noteq> [''endArea'', ''name''] \<longrightarrow> formatAuthorChange c = Null"
    by (auto simp add: formatAuthorChange_def)
  have publisher: "2 \<le> length (path c) \<and> path c \<noteq> [''area'', ''name'']
        \<longrightarrow> formatPublisherChange c = Null"
    by (auto simp add: formatPublisherChange_def)
  have edition: "2 \<le> length (path c)
        \<and> hd (path c) \<notin> set [''publisherSet'', ''releaseEventSet'', ''languageSet'']
        \<longrightarrow> formatEditionChange c = Null"
    by (cases "path c") (auto simp add: formatEditionChange_def set_defs)
  have work: "2 \<le> length (path c) \<and> hd (path c) \<noteq> ''languageSet''
        \<longrightarrow> formatWorkChange c = Null"
    by (cases "path c") (auto simp add: formatWorkChange_def set_defs)
  have editionGroup: "2 \<le> length (path c) \<longrightarrow> \<not> isFormatted (formatEditionGroupChange c)"
    by (auto simp add: formatEditionGroupChange_def)
  from areas sets author publisher edition work editionGroup show ?thesis
    by (intro conjI)
qed

theorem equal_first_segment_classification_witness:
  "2 \<le> length (path beginYearChange)
   \<and> path beginYearChange \<noteq> [''beginArea'', ''name'']
   \<and> path beginYearChange \<noteq> [''endArea'', ''name'']
   \<and> path beginYearChange \<noteq> [''area'', ''name'']
   \<and> hd (path beginYearChange) \<notin> set [''publisherSet'', ''releaseEventSet'', ''languageSet'']
   \<and> hd (path beginYearChange) \<noteq> ''languageSet''
   \<and> formatAuthorChange beginYearChange = Null
   \<and> formatPublisherChange beginYearChange = Null
   \<and> formatEditionChange beginYearChange = Null
   \<and> formatWorkChange beginYearChange = Null
   \<and> \<not> isFormatted (formatEditionGroupChange beginYearChange)"
proof -
  have h: "2 \<le> length (path beginYearChange)"
    "path beginYearChange \<noteq> [''beginArea'', ''name'']"
    "path beginYearChange \<noteq> [''endArea'', ''name'']"
    "path beginYearChange \<noteq> [''area'', ''name'']"
    "hd (path beginYearChange) \<notin> set [''publisherSet'', ''releaseEventSet'', ''languageSet'']"
    "hd (path beginYearChange) \<noteq> ''languageSet''"
    by (simp_all add: beginYearChange_def)
  from equal_first_segment_classification[of beginYearChange] h show ?thesis
    by (intro conjI) blast+
qed

text \<open>
  A change below the begin date shares its first segment with a change of the begin
  date, and is not classified like it.
\<close>

theorem trailing_segment_changes_classification:
  "hd (path beginYearChange) = hd (path (beginYearChange\<lparr>path := [''beginDate'']\<rparr>))
   \<and> formatAuthorChange beginYearChange = Null
   \<and> formatAuthorChange (beginYearChange\<lparr>path := [''beginDate'']\<rparr>) \<noteq> Null"
  by (simp add: formatAuthorChange_def beginYearChange_def)

section \<open>A missing base revision\<close>

text \<open>
  C3, as the code has it: when the base revision record does not exist the request fails
  and delivers no diff at all. The failure is \<open>NotFoundError\<close> when none of the joined
  promises is rejected; when one is, its rejection reaches the caller instead, since the
  callback that tests the revision never runs.
\<close>

theorem missing_revision_fails:
  assumes "Revision_fetch db rid = Fulfilled t None"
  shows "\<exists>e. getRevisionDiff db rid = Inl e \<and>
           (if rejectionReasons db rid = [] then e = NotFoundError
            else e \<in> set (rejectionReasons db rid))"
proof (cases "rejectionReasons db rid = []")
  case True
  with assms show ?thesis by (simp add: getRevisionDiff_missing)
next
  case False
  with getRevisionDiff_rejected[OF False] show ?thesis by simp
qed

theorem missing_revision_fails_witness:
  "Revision_fetch exampleDb 999 = Fulfilled 6 None
   \<and> rejectionReasons exampleDb 999 = []
   \<and> getRevisionDiff exampleDb 999 = Inl NotFoundError"
proof -
  have h: "Revision_fetch exampleDb 999 = Fulfilled 6 None"
    by (simp add: exampleDb_def)
  have r: "rejectionReasons exampleDb 999 = []"
    by (simp add: rejectionReasons_def branchPromises_def db_defs)
  from missing_revision_fails[OF h] r h show ?thesis by auto
qed

text \<open>
  Revision 999 does not exist and the query of the edition revisions fails: the caller
  gets the query's error, not \<open>NotFoundError\<close>.
\<close>

theorem missing_revision_with_failed_branch:
  "Revision_fetch failingDb 999 = Fulfilled 6 None
   \<and> getRevisionDiff failingDb 999 = Inl (OrmError ''connection lost'')
   \<and> getRevisionDiff failingDb 999 \<noteq> Inl NotFoundError"
  by (simp add: getRevisionDiff_def db_defs)

section \<open>The order of the blocks\<close>

text \<open>
  C4: whenever the revision exists and the five per-kind promises are fulfilled, at
  whatever times, the page's diffs are the blocks of the authors, the editions, the
  edition groups, the publishers and the works, in this order.
\<close>

theorem blocks_in_fixed_kind_order:
  assumes "Revision_fetch db rid = Fulfilled t0 (Some r)"
    and "createRevision (AuthorRevision db rid) = Fulfilled t1 authorDiffs"
    and "createRevision (EditionRevision db rid) = Fulfilled t2 editionDiffs"
    and "createRevision (EditionGroupRevision db rid) = Fulfilled t3 editionGroupDiffs"
    and "createRevision (PublisherRevision db rid) = Fulfilled t4 publisherDiffs"
    and "createRevision (WorkRevision db rid) = Fulfilled t5 workDiffs"
  shows "\<exists>pg. getRevisionDiff db rid = Inr pg \<and>
           diffs pg =
             formatEntityDiffs authorDiffs ''Author'' formatAuthorChange @
             formatEntityDiffs editionDiffs ''Edition'' formatEditionChange @
             formatEntityDiffs editionGroupDiffs ''EditionGroup'' formatEditionGroupChange @
             formatEntityDiffs publisherDiffs ''Publisher'' formatPublisherChange @
             formatEntityDiffs workDiffs ''Work'' formatWorkChange \<and>
           map entityType (diffs pg) =
             replicate (length authorDiffs) ''Author'' @
             replicate (length editionDiffs) ''Edition'' @
             replicate (length editionGroupDiffs) ''EditionGroup'' @
             replicate (length publisherDiffs) ''Publisher'' @
             replicate (length workDiffs) ''Work''"
  using assms by (simp add: getRevisionDiff_def entityType_formatEntityDiffs)

theorem blocks_in_fixed_kind_order_witness:
  "createRevision (AuthorRevision mixedDb 42)
     = Fulfilled 9 [\<lparr>changes = [endDateChange], entity = Entity ''author-1''\<rparr>]
   \<and> createRevision (WorkRevision mixedDb 42)
     = Fulfilled 2 [\<lparr>changes = [\<lparr>path = [''type''], kind = Added, lhs = None,
                                   rhs = Some (JRef 3 (Some ''Novel''))\<rparr>],
                     entity = Entity ''work-1''\<rparr>]
   \<and> (\<exists>pg. getRevisionDiff mixedDb 42 = Inr pg
         \<and> map entityType (diffs pg) = [''Author'', ''Publisher'', ''Work''])"
proof -
  have h0: "Revision_fetch mixedDb 42 = Fulfilled 6 (Some (Revision 42))"
    by (simp add: db_defs)
  have h1: "createRevision (AuthorRevision mixedDb 42)
              = Fulfilled 9 [\<lparr>changes = [endDateChange], entity = Entity ''author-1''\<rparr>]"
    by (simp add: db_defs)
  have h2: "createRevision (EditionRevision mixedDb 42) = Fulfilled 5 []"
    by (simp add: db_defs)
  have h3: "createRevision (EditionGroupRevision mixedDb 42) = Fulfilled 1 []"
    by (simp add: db_defs)
  have h4: "createRevision (PublisherRevision mixedDb 42)
              = Fulfilled 5 [\<lparr>changes = [], entity = Entity ''publisher-1''\<rparr>]"
    by (simp add: db_defs)
  have h5: "createRevision (WorkRevision mixedDb 42)
     = Fulfilled 2 [\<lparr>changes = [\<lparr>path = [''type''], kind = Added, lhs = None,
                                   rhs = Some (JRef 3 (Some ''Novel''))\<rparr>],
                     entity = Entity ''work-1''\<rparr>]"
    by (simp add: db_defs)
  from blocks_in_fixed_kind_order[OF h0 h1 h2 h3 h4 h5]
  obtain pg where a: "getRevisionDiff mixedDb 42 = Inr pg"
    and "map entityType (diffs pg) =
           replicate (length [\<lparr>changes = [endDateChange], entity = Entity ''author-1''\<rparr>])
             ''Author'' @
           replicate (length ([] :: raw_diff list)) ''Edition'' @
           replicate (length ([] :: raw_diff list)) ''EditionGroup'' @
           replicate (length [\<lparr>changes = [], entity = Entity ''publisher-1''\<rparr>])
             ''Publisher'' @
           replicate (length [\<lparr>changes = [\<lparr>path = [''type''], kind = Added, lhs = None,
                                   rhs = Some (JRef 3 (Some ''Novel''))\<rparr>],
                     entity = Entity ''work-1''\<rparr>]) ''Work''"
    by blast
  then have b: "map entityType (diffs pg) = [''Author'', ''Publisher'', ''Work'']"
    by simp
  from a b have "\<exists>pg. getRevisionDiff mixedDb 42 = Inr pg
                   \<and> map entityType (diffs pg) = [''Author'', ''Publisher'', ''Work'']"
    by (intro exI[of _ pg] conjI)
  with h1 h5 show ?thesis by (intro conjI)
qed

section \<open>Area changes of an author\<close>

text \<open>
  C5: for an author, a change of the begin area whose sides are area objects and a change
  of the begin area's name whose sides are the names of the same areas are formatted
  alike: the label is Begin Area and the rendered values are the names. Likewise for the
  end area, under the label End Area.
\<close>

theorem area_change_equivalence:
  "formatAuthorChange \<lparr>path = [''beginArea''], kind = k,
       lhs = map_option areaObject old, rhs = map_option areaObject new\<rparr>
     = Formatted (FieldChange ''Begin Area'' k (map_option JStr old) (map_option JStr new))
   \<and> formatAuthorChange \<lparr>path = [''beginArea'', ''name''], kind = k,
       lhs = map_option JStr old, rhs = map_option JStr new\<rparr>
     = Formatted (FieldChange ''Begin Area'' k (map_option JStr old) (map_option JStr new))
   \<and> formatAuthorChange \<lparr>path = [''endArea''], kind = k,
       lhs = map_option areaObject old, rhs = map_option areaObject new\<rparr>
     = Formatted (FieldChange ''End Area'' k (map_option JStr old) (map_option JStr new))
   \<and> formatAuthorChange \<lparr>path = [''endArea'', ''name''], kind = k,
       lhs = map_option JStr old, rhs = map_option JStr new\<rparr>
     = Formatted (FieldChange ''End Area'' k (map_option JStr old) (map_option JStr new))"
  by (cases old; cases new)
     (simp_all add: formatAuthorChange_def formatAreaChange_def areaObject_def)

section \<open>The end date scenario\<close>

text \<open>
  C6: for a revision that exists and touches one author only, whose diff with its parent
  is the single modification of the end date from 2001-01-01 to 2002-02-02, the request
  answers with exactly one block, of type Author, whose one formatted change has the
  label End Date, the kind modified and the two dates as they were.
\<close>

theorem end_date_scenario:
  assumes "Revision_fetch db rid = Fulfilled t0 (Some r)"
    and "AuthorRevision db rid = Fulfilled t1 [row]"
    and "parent row = Fulfilled t2 p"
    and "diff row p = Fulfilled t3 [endDateChange]"
    and "EditionRevision db rid = Fulfilled t4 []"
    and "EditionGroupRevision db rid = Fulfilled t5 []"
    and "PublisherRevision db rid = Fulfilled t6 []"
    and "WorkRevision db rid = Fulfilled t7 []"
  shows "getRevisionDiff db rid =
           Inr \<lparr>diffs = [\<lparr>entityType = ''Author'', entityMeta = related_entity row,
                           formattedChanges =
                             [FieldChange ''End Date'' Modified (Some (JStr ''2001-01-01''))
                                (Some (JStr ''2002-02-02''))]\<rparr>],
                page_revision = r, title = ''RevisionPage''\<rparr>"
  using assms
  by (simp add: getRevisionDiff_def createRevision_def diffRevisionsWithParents_def
      formatEntityDiffs_def formatAuthorChange_def formatScalarChange_def endDateChange_def)

theorem end_date_scenario_witness:
  "AuthorRevision exampleDb 42 = Fulfilled 2 [authorRow]
   \<and> diff authorRow (Some (Revision 41)) = Fulfilled 4 [endDateChange]
   \<and> getRevisionDiff exampleDb 42 =
           Inr \<lparr>diffs = [\<lparr>entityType = ''Author'', entityMeta = Entity ''author-1'',
                           formattedChanges =
                             [FieldChange ''End Date'' Modified (Some (JStr ''2001-01-01''))
                                (Some (JStr ''2002-02-02''))]\<rparr>],
                page_revision = Revision 42, title = ''RevisionPage''\<rparr>"
proof -
  have h0: "Revision_fetch exampleDb 42 = Fulfilled 6 (Some (Revision 42))"
    by (simp add: exampleDb_def)
  have h1: "AuthorRevision exampleDb 42 = Fulfilled 2 [authorRow]"
    by (simp add: exampleDb_def)
  have h2: "parent authorRow = Fulfilled 3 (Some (Revision 41))"
    by (simp add: authorRow_def)
  have h3: "diff authorRow (Some (Revision 41)) = Fulfilled 4 [endDateChange]"
    by (simp add: authorRow_def)
  have h4: "EditionRevision exampleDb 42 = Fulfilled 5 []"
    and h5: "EditionGroupRevision exampleDb 42 = Fulfilled 1 []"
    and h6: "PublisherRevision exampleDb 42 = Fulfilled 2 []"
    and h7: "WorkRevision exampleDb 42 = Fulfilled 1 []"
    by (simp_all add: exampleDb_def)
  have e: "related_entity authorRow = Entity ''author-1''"
    by (simp add: authorRow_def)
  from end_date_scenario[OF h0 h1 h2 h3 h4 h5 h6 h7] h1 h3 e show ?thesis by simp
qed

section \<open>Dimensions and page count of an edition\<close>

text \<open>
  C7: the Edition classifier formats a change whose path is exactly \<open>['width']\<close>,
  \<open>['height']\<close>, \<open>['depth']\<close> or \<open>['weight']\<close> as a scalar change labelled with the start
  case of the field's name, and a change whose path is exactly \<open>['pages']\<close> as a scalar
  change labelled Page Count.
\<close>

theorem edition_dimension_labels:
  "formatEditionChange (c\<lparr>path := [''width'']\<rparr>)
     = Formatted (formatScalarChange (c\<lparr>path := [''width'']\<rparr>) (startCase ''width''))
   \<and> formatEditionChange (c\<lparr>path := [''height'']\<rparr>)
     = Formatted (formatScalarChange (c\<lparr>path := [''height'']\<rparr>) (startCase ''height''))
   \<and> formatEditionChange (c\<lparr>path := [''depth'']\<rparr>)
     = Formatted (formatScalarChange (c\<lparr>path := [''depth'']\<rparr>) (startCase ''depth''))
   \<and> formatEditionChange (c\<lparr>path := [''weight'']\<rparr>)
     = Formatted (formatScalarChange (c\<lparr>path := [''weight'']\<rparr>) (startCase ''weight''))
   \<and> formatEditionChange (c\<lparr>path := [''pages'']\<rparr>)
     = Formatted (formatScalarChange (c\<lparr>path := [''pages'']\<rparr>) ''Page Count'')
   \<and> startCase ''width'' = ''Width'' \<and> startCase ''height'' = ''Height''
   \<and> startCase ''depth'' = ''Depth'' \<and> startCase ''weight'' = ''Weight''
   \<and> label (formatScalarChange (c\<lparr>path := [''width'']\<rparr>) (startCase ''width'')) = ''Width''
   \<and> label (formatScalarChange (c\<lparr>path := [''pages'']\<rparr>) ''Page Count'') = ''Page Count''"
  by (simp add: formatEditionChange_def set_defs formatScalarChange_def startCase_defs)

section \<open>The area of a publisher\<close>

text \<open>
  C8: the Publisher classifier formats a change whose path is \<open>['area']\<close> or
  \<open>['area', 'name']\<close> as an area change and passes no label, so that the formatter's
  default label Area is used.
\<close>

theorem publisher_area_default_label:
  "formatPublisherChange (c\<lparr>path := [''area'']\<rparr>)
     = Formatted (formatAreaChange (c\<lparr>path := [''area'']\<rparr>) None)
   \<and> formatPublisherChange (c\<lparr>path := [''area'', ''name'']\<rparr>)
     = Formatted (formatAreaChange (c\<lparr>path := [''area'', ''name'']\<rparr>) None)
   \<and> label (formatAreaChange (c\<lparr>path := [''area'']\<rparr>) None) = ''Area''
   \<and> label (formatAreaChange (c\<lparr>path := [''area'', ''name'']\<rparr>) None) = ''Area''"
  by (simp add: formatPublisherChange_def formatAreaChange_def)

section \<open>A failing branch\<close>

text \<open>
  C9: when the promise of any one entity kind is rejected, the whole request fails: no
  page is sent, and \<open>next\<close> gets the rejection reason of a joined promise, which is the
  branch's own reason when it is the only rejection.
\<close>

theorem branch_failure_fails_whole_call:
  assumes "Rejected t e \<in> set (branchPromises db rid)"
  shows "(\<exists>e'. getRevisionDiff db rid = Inl e' \<and> e' \<in> set (rejectionReasons db rid))
         \<and> (rejectionReasons db rid = [e] \<longrightarrow> getRevisionDiff db rid = Inl e)"
proof -
  from assms have "e \<in> set (concat (map rejectionReason (branchPromises db rid)))"
    by force
  then have "e \<in> set (rejectionReasons db rid)"
    by (simp add: rejectionReasons_def)
  then have ne: "rejectionReasons db rid \<noteq> []"
    by (cases "rejectionReasons db rid") simp_all
  from getRevisionDiff_rejected[OF ne] show ?thesis by auto
qed

theorem branch_failure_fails_whole_call_witness:
  "Rejected 4 (OrmError ''diff failed'') \<in> set (branchPromises brokenDiffDb 42)
   \<and> rejectionReasons brokenDiffDb 42 = [OrmError ''diff failed'']
   \<and> getRevisionDiff brokenDiffDb 42 = Inl (OrmError ''diff failed'')"
proof -
  have h: "Rejected 4 (OrmError ''diff failed'') \<in> set (branchPromises brokenDiffDb 42)"
    by (simp add: branchPromises_def db_defs)
  have r: "rejectionReasons brokenDiffDb 42 = [OrmError ''diff failed'']"
    by (simp add: rejectionReasons_def branchPromises_def db_defs)
  from branch_failure_fails_whole_call[OF h] r h show ?thesis by simp
qed

section \<open>Labels of the type fields\<close>

text \<open>
  C10: the Author classifier formats a change whose path is exactly \<open>['type']\<close> as a type
  change labelled Author Type, and the Publisher classifier formats it as a type change
  labelled Publisher Type.
\<close>

theorem type_change_labels:
  "formatAuthorChange (c\<lparr>path := [''type'']\<rparr>)
     = Formatted (formatTypeChange (c\<lparr>path := [''type'']\<rparr>) ''Author Type'')
   \<and> formatPublisherChange (c\<lparr>path := [''type'']\<rparr>)
     = Formatted (formatTypeChange (c\<lparr>path := [''type'']\<rparr>) ''Publisher Type'')
   \<and> label (formatTypeChange (c\<lparr>path := [''type'']\<rparr>) ''Author Type'') = ''Author Type''
   \<and> label (formatTypeChange (c\<lparr>path := [''type'']\<rparr>) ''Publisher Type'')
       = ''Publisher Type''"
  by (simp add: formatAuthorChange_def formatPublisherChange_def formatTypeChange_def)

end
